theory Spec2Isabelle
  imports Main "HOL-Library.Word"
begin

section \<open>mdns-mirror: the reconciliation core of \<^verbatim>\<open>src/mdns_mirror/app.py\<close>\<close>

text \<open>
  The program listens for mDNS service events and mirrors host addresses into a DNS zone
  with dynamic updates. Its core is a handful of closures inside \<^verbatim>\<open>mirror_mdns\<close> that
  share two dictionaries (\<^verbatim>\<open>services\<close>, \<^verbatim>\<open>servers\<close>), two event flags and the connection
  to the DNS server. The closures are embedded as functions that take the shared state and
  return it updated; a Python exception is the \<open>Inl\<close> branch of the result.
\<close>

subsection \<open>Exceptions\<close>

datatype runtime_msg =
    no_result_returned int  \<comment> \<open>\<^verbatim>\<open>f"no result returned after {max_retries} retries"\<close>\<close>
  | unexpected_state_change  \<comment> \<open>\<^verbatim>\<open>"unexpected state change from service type listener"\<close>\<close>

datatype exn =
    KeyError string
  | RuntimeError runtime_msg
  | OSError  \<comment> \<open>what a failed network exchange raises\<close>

text \<open>Sequencing of two steps that may raise: the second runs only if the first returned.\<close>

definition and_then ::
  "(exn + 'a) \<times> 's \<Rightarrow> ('a \<Rightarrow> 's \<Rightarrow> (exn + 'b) \<times> 's) \<Rightarrow> (exn + 'b) \<times> 's" where
  "and_then r f = (case r of (Inl e, s) \<Rightarrow> (Inl e, s) | (Inr x, s) \<Rightarrow> f x s)"

subsection \<open>The retry wrapper\<close>

text \<open>
  \<^verbatim>\<open>
  MAX_RETRIES: int = 3

  def retry(callable, max_retries = MAX_RETRIES):
      for n in range(MAX_RETRIES):
          result = callable()
          if result is not None:
              return result
      raise RuntimeError(f"no result returned after {max_retries} retries")
  \<close>
  The callable is a stateful operation that returns a value, returns \<^verbatim>\<open>None\<close> or raises.
  The loop runs over \<^verbatim>\<open>range(MAX_RETRIES)\<close>, the module constant, whatever the parameter
  \<^verbatim>\<open>max_retries\<close> is; the parameter appears in the message only.
\<close>

definition MAX_RETRIES :: int where
  "MAX_RETRIES = 3"

definition range_py :: "int \<Rightarrow> nat list" where
  "range_py n = [0..<nat n]"

fun retry_for ::
  "nat list \<Rightarrow> ('s \<Rightarrow> (exn + 'a option) \<times> 's) \<Rightarrow> 's \<Rightarrow> (exn + 'a option) \<times> 's" where
  "retry_for [] callable s = (Inr None, s)"
| "retry_for (n # ns) callable s =
     (case callable s of
        (Inl e, s') \<Rightarrow> (Inl e, s')
      | (Inr (Some result), s') \<Rightarrow> (Inr (Some result), s')
      | (Inr None, s') \<Rightarrow> retry_for ns callable s')"

definition retry ::
  "('s \<Rightarrow> (exn + 'a option) \<times> 's) \<Rightarrow> int \<Rightarrow> 's \<Rightarrow> (exn + 'a) \<times> 's" where
  "retry callable max_retries s =
     (case retry_for (range_py MAX_RETRIES) callable s of
        (Inl e, s') \<Rightarrow> (Inl e, s')
      | (Inr (Some result), s') \<Rightarrow> (Inr result, s')
      | (Inr None, s') \<Rightarrow> (Inl (RuntimeError (no_result_returned max_retries)), s'))"

text \<open>
  Observing the number of invocations: \<open>counted callable\<close> behaves as \<open>callable\<close> and
  increments a counter kept beside the operation's own state at every invocation.
  \<open>after_calls callable k s\<close> is the operation's state after \<open>k\<close> invocations from \<open>s\<close>.
\<close>

definition counted ::
  "('s \<Rightarrow> (exn + 'a option) \<times> 's) \<Rightarrow> 's \<times> nat \<Rightarrow> (exn + 'a option) \<times> ('s \<times> nat)" where
  "counted callable = (\<lambda>(s, n). case callable s of (r, s') \<Rightarrow> (r, (s', Suc n)))"

fun after_calls :: "('s \<Rightarrow> (exn + 'a option) \<times> 's) \<Rightarrow> nat \<Rightarrow> 's \<Rightarrow> 's" where
  "after_calls callable 0 s = s"
| "after_calls callable (Suc k) s = after_calls callable k (snd (callable s))"

text \<open>An operation that is never ready: every invocation returns \<^verbatim>\<open>None\<close>.\<close>

definition never_ready :: "unit \<Rightarrow> (exn + unit option) \<times> unit" where
  "never_ready = (\<lambda>s. (Inr None, s))"

subsection \<open>Service metadata and server snapshots\<close>

text \<open>
  \<open>ServiceInfo\<close> is the metadata object of the discovery library; the program reads its
  \<^verbatim>\<open>server\<close>, \<^verbatim>\<open>_ipv4_addresses\<close>, \<^verbatim>\<open>_ipv6_addresses\<close> and \<^verbatim>\<open>host_ttl\<close>.
  \<open>ServerInfo\<close> is the program's own class:
  \<^verbatim>\<open>
  class ServerInfo:
      def __init__(self, ipv4_address=None, ipv6_address=None, ttl=None):
          self.ipv4_address = ipv4_address
          self.ipv6_address = ipv6_address
          self.ttl = ttl
  \<close>
  The class defines neither \<^verbatim>\<open>__eq__\<close> nor \<^verbatim>\<open>__ne__\<close>, so \<^verbatim>\<open>a != b\<close> on two of its
  instances is Python's default: true unless \<^verbatim>\<open>a\<close> and \<^verbatim>\<open>b\<close> are the same object. The
  embedding therefore keeps the objects in a store, \<open>objects\<close>, and the dictionary
  \<^verbatim>\<open>servers\<close> holds references into it; a reference is the index of the object.
\<close>

record ServiceInfo =
  server :: string
  ipv4_addresses :: "32 word list"
  ipv6_addresses :: "128 word list"
  host_ttl :: int

record ServerInfo =
  ipv4_address :: "32 word option"
  ipv6_address :: "128 word option"
  ttl :: "int option"

type_synonym ref = nat

subsection \<open>DNS messages and the DNS server\<close>

text \<open>
  Record types are the integer codes of \<^verbatim>\<open>dns.rdatatype.RdataType\<close>. An rrset of a zone
  transfer answer is read by the program only through its owner name and its type.
\<close>

definition RdataType_A :: nat where
  "RdataType_A = 1"

definition RdataType_AAAA :: nat where
  "RdataType_AAAA = 28"

record rrset =
  rr_name :: string
  rdtype :: nat

datatype address = IPv4Address "32 word" | IPv6Address "128 word"

datatype update =
    Replace string "int option" nat address
      \<comment> \<open>\<^verbatim>\<open>update.replace(name, ttl, "A" | "AAAA", str(address))\<close>\<close>
  | Delete string
      \<comment> \<open>\<^verbatim>\<open>update.delete(name)\<close>: all records at the name\<close>

datatype message =
    AXFR  \<comment> \<open>\<^verbatim>\<open>dns.xfr.make_query(dns.zone.Zone(dns_zone))\<close>\<close>
  | Update update  \<comment> \<open>\<^verbatim>\<open>dns.update.UpdateMessage(dns_zone)\<close> with one operation\<close>

text \<open>
  Modelled from the spec: the DNS server and the DNS library are outside the repository.
  Section 4.4: a Delete operation removes all record data at that name (any type); a
  Replace sets the rrset of that name and type. Section 6: a zone transfer returns the
  ordered sequence of the zone's records. An update message has an empty answer.
\<close>

fun dns_apply :: "message \<Rightarrow> rrset list \<Rightarrow> rrset list" where
  "dns_apply AXFR z = z"
| "dns_apply (Update (Replace n t ty a)) z =
     filter (\<lambda>rr. \<not> (rr_name rr = n \<and> rdtype rr = ty)) z @ [\<lparr>rr_name = n, rdtype = ty\<rparr>]"
| "dns_apply (Update (Delete n)) z = filter (\<lambda>rr. rr_name rr \<noteq> n) z"

fun dns_answer :: "message \<Rightarrow> rrset list \<Rightarrow> rrset list" where
  "dns_answer AXFR z = z"
| "dns_answer (Update u) z = []"

subsection \<open>The shared state of \<^verbatim>\<open>mirror_mdns\<close>\<close>

text \<open>
  \<open>services\<close>, \<open>servers\<close>, \<open>exit_event\<close> and \<open>error_event\<close> are the closure variables of
  \<^verbatim>\<open>mirror_mdns\<close>; \<open>objects\<close> is the store of \<open>ServerInfo\<close> instances. The rest is the
  environment the closures act on: \<open>zone\<close> is the content of the zone on the DNS server,
  \<open>sent\<close> the messages handed to \<^verbatim>\<open>dns.query.tcp\<close> so far, in order, \<open>lookups\<close> the number
  of \<^verbatim>\<open>zc.get_service_info\<close> calls so far, and \<open>stderr\<close> the lines \<^verbatim>\<open>secho(..., err=True)\<close> wrote.
\<close>

record mirror_state =
  services :: "string \<rightharpoonup> ServiceInfo"
  servers :: "string \<rightharpoonup> ref"
  objects :: "ServerInfo list"
  exit_event :: bool
  error_event :: bool
  zone :: "rrset list"
  sent :: "message list"
  lookups :: nat
  stderr :: "string list"

definition initial :: "rrset list \<Rightarrow> mirror_state" where
  "initial z = \<lparr>services = Map.empty, servers = Map.empty, objects = [],
     exit_event = False, error_event = False, zone = z, sent = [], lookups = 0, stderr = []\<rparr>"

text \<open>
  \<^verbatim>\<open>dns.query.tcp(message, dns_server)\<close>: one exchange with the server. The network is a
  parameter \<open>net\<close>: \<open>net k\<close> tells whether the exchange number \<open>k\<close> (counting from 0, in
  the order of \<open>sent\<close>) gets its response; if not, the call raises and the server's zone
  is unchanged.
\<close>

definition tcp :: "(nat \<Rightarrow> bool) \<Rightarrow> message \<Rightarrow> mirror_state \<Rightarrow> (exn + rrset list) \<times> mirror_state" where
  "tcp net q st =
     (if net (length (sent st))
      then (Inr (dns_answer q (zone st)),
            st\<lparr>sent := sent st @ [q], zone := dns_apply q (zone st)\<rparr>)
      else (Inl OSError, st\<lparr>sent := sent st @ [q]\<rparr>))"

text \<open>The update operations among the messages sent, in order.\<close>

fun mutations :: "message list \<Rightarrow> update list" where
  "mutations [] = []"
| "mutations (AXFR # ms) = mutations ms"
| "mutations (Update u # ms) = u # mutations ms"

subsection \<open>Zone sweep\<close>

text \<open>
  \<^verbatim>\<open>
  def remove_all_a_records():
      record_names = []
      query, _ = dns.xfr.make_query(dns.zone.Zone(dns_zone))
      response = dns.query.tcp(query, dns_server)
      for rrset in response.answer:
          if rrset.rdtype == RdataType.A or rrset.rdtype == RdataType.AAAA:
              record_names.append(rrset.name)
      for name in record_names:
          update = dns.update.UpdateMessage(dns_zone)
          update.delete(name)
          response = dns.query.tcp(update, dns_server)
  \<close>
\<close>

fun collect_record_names :: "rrset list \<Rightarrow> string list \<Rightarrow> string list" where
  "collect_record_names [] record_names = record_names"
| "collect_record_names (rrset # answer) record_names =
     (if rdtype rrset = RdataType_A \<or> rdtype rrset = RdataType_AAAA
      then collect_record_names answer (record_names @ [rr_name rrset])
      else collect_record_names answer record_names)"

fun delete_record_names ::
  "(nat \<Rightarrow> bool) \<Rightarrow> string list \<Rightarrow> mirror_state \<Rightarrow> (exn + unit) \<times> mirror_state" where
  "delete_record_names net [] st = (Inr (), st)"
| "delete_record_names net (n # record_names) st =
     (case tcp net (Update (Delete n)) st of
        (Inl e, st') \<Rightarrow> (Inl e, st')
      | (Inr response, st') \<Rightarrow> delete_record_names net record_names st')"

definition remove_all_a_records :: "(nat \<Rightarrow> bool) \<Rightarrow> mirror_state \<Rightarrow> (exn + unit) \<times> mirror_state" where
  "remove_all_a_records net st =
     (case tcp net AXFR st of
        (Inl e, st') \<Rightarrow> (Inl e, st')
      | (Inr answer, st') \<Rightarrow> delete_record_names net (collect_record_names answer []) st')"

subsection \<open>Issuing DNS updates for a server\<close>

text \<open>\<^verbatim>\<open>str.split(sep)\<close> with a one-character separator; the result is never empty.\<close>

fun str_split :: "char \<Rightarrow> string \<Rightarrow> string list" where
  "str_split sep [] = [[]]"
| "str_split sep (c # cs) =
     (if c = sep then [] # str_split sep cs
      else (case str_split sep cs of [] \<Rightarrow> [[c]] | p # ps \<Rightarrow> (c # p) # ps))"

text \<open>
  \<^verbatim>\<open>
  def server_updated(server, server_info):
      server_parts = server.split(".")
      server_name = server_parts[0]
      if server_info.ipv4_address is not None:
          update = dns.update.UpdateMessage(dns_zone)
          update.replace(server_name, server_info.ttl, "A", str(server_info.ipv4_address))
          response = dns.query.tcp(update, dns_server)
      if server_info.ipv6_address is not None:
          update = dns.update.UpdateMessage(dns_zone)
          update.replace(server_name, server_info.ttl, "AAAA", str(server_info.ipv6_address))
          response = dns.query.tcp(update, dns_server)

  def server_removed(server, server_info):
      server_parts = server.split(".")
      server_name = server_parts[0]
      update = dns.update.UpdateMessage(dns_zone)
      update.delete(server_name)
      response = dns.query.tcp(update, dns_server)
  \<close>
\<close>

definition server_updated ::
  "(nat \<Rightarrow> bool) \<Rightarrow> string \<Rightarrow> ServerInfo \<Rightarrow> mirror_state \<Rightarrow> (exn + unit) \<times> mirror_state" where
  "server_updated net srv server_info st =
     (let server_parts = str_split (CHR ''.'') srv;
          server_name = server_parts ! 0
      in and_then
           (case ipv4_address server_info of
              None \<Rightarrow> (Inr (), st)
            | Some a \<Rightarrow>
                and_then (tcp net (Update (Replace server_name (ttl server_info) RdataType_A (IPv4Address a))) st)
                  (\<lambda>response st'. (Inr (), st')))
           (\<lambda>_ st1.
              case ipv6_address server_info of
                None \<Rightarrow> (Inr (), st1)
              | Some a \<Rightarrow>
                  and_then (tcp net (Update (Replace server_name (ttl server_info) RdataType_AAAA (IPv6Address a))) st1)
                    (\<lambda>response st'. (Inr (), st'))))"

definition server_removed ::
  "(nat \<Rightarrow> bool) \<Rightarrow> string \<Rightarrow> ServerInfo \<Rightarrow> mirror_state \<Rightarrow> (exn + unit) \<times> mirror_state" where
  "server_removed net srv server_info st =
     (let server_parts = str_split (CHR ''.'') srv;
          server_name = server_parts ! 0
      in and_then (tcp net (Update (Delete server_name)) st) (\<lambda>response st'. (Inr (), st')))"

subsection \<open>The reconciler\<close>

text \<open>
  \<^verbatim>\<open>
  def service_updated(name, service_info):
      services[name] = service_info
      server = service_info.server
      ipv4_addresses = service_info._ipv4_addresses
      ipv4_address = ipv4_addresses[0] if ipv4_addresses else None
      ipv6_addresses = service_info._ipv6_addresses
      ipv6_address = ipv6_addresses[0] if ipv6_addresses else None
      ttl = service_info.host_ttl
      server_info = ServerInfo(ipv4_address, ipv6_address, ttl)
      if servers.get(server, None) != server_info:
          servers[server] = server_info
          server_updated(server, server_info)
  \<close>
  \<open>ServerInfo(...)\<close> creates a new object: it is appended to \<open>objects\<close> and its reference
  is its index there. \<^verbatim>\<open>servers.get(server, None) != server_info\<close> compares
  the stored reference (or \<^verbatim>\<open>None\<close>) with the new object by identity. Both dictionaries are
  keyed as the source keys them: \<open>services\<close> by the instance name, \<open>servers\<close> by the whole string
  \<^verbatim>\<open>service_info.server\<close>.
\<close>

definition candidate :: "ServiceInfo \<Rightarrow> ServerInfo" where
  "candidate service_info =
     \<lparr>ipv4_address = (case ipv4_addresses service_info of [] \<Rightarrow> None | a # _ \<Rightarrow> Some a),
      ipv6_address = (case ipv6_addresses service_info of [] \<Rightarrow> None | a # _ \<Rightarrow> Some a),
      ttl = Some (host_ttl service_info)\<rparr>"

definition service_updated ::
  "(nat \<Rightarrow> bool) \<Rightarrow> string \<Rightarrow> ServiceInfo \<Rightarrow> mirror_state \<Rightarrow> (exn + unit) \<times> mirror_state" where
  "service_updated net nm service_info st =
     (let st1 = st\<lparr>services := (services st)(nm \<mapsto> service_info)\<rparr>;
          srv = server service_info;
          server_info = candidate service_info;
          r = length (objects st1);
          st2 = st1\<lparr>objects := objects st1 @ [server_info]\<rparr>
      in if servers st2 srv \<noteq> Some r
         then server_updated net srv server_info (st2\<lparr>servers := (servers st2)(srv \<mapsto> r)\<rparr>)
         else (Inr (), st2))"

text \<open>
  \<^verbatim>\<open>
  def service_removed(name):
      service_info = services[name]
      del services[name]
      server = service_info.server
      if server in servers:
          server_info = servers[server]
          del servers[server]
          server_removed(server, server_info)
  \<close>
  \<^verbatim>\<open>services[name]\<close> raises \<^verbatim>\<open>KeyError\<close> when the name is not stored.
\<close>

definition service_removed ::
  "(nat \<Rightarrow> bool) \<Rightarrow> string \<Rightarrow> mirror_state \<Rightarrow> (exn + unit) \<times> mirror_state" where
  "service_removed net nm st =
     (case services st nm of
        None \<Rightarrow> (Inl (KeyError nm), st)
      | Some service_info \<Rightarrow>
          (let st1 = st\<lparr>services := (services st)(nm := None)\<rparr>;
               srv = server service_info
           in case servers st1 srv of
                None \<Rightarrow> (Inr (), st1)
              | Some r \<Rightarrow>
                  (let server_info = objects st1 ! r;
                       st2 = st1\<lparr>servers := (servers st1)(srv := None)\<rparr>
                   in server_removed net srv server_info st2)))"

subsection \<open>The event handler and the main loop\<close>

text \<open>
  \<^verbatim>\<open>
  def fatal_error():
      logging.exception("Fatal error")
      secho("A fatal error occurred.", fg=colors.RED, err=True)

  def on_service_instance_state_change(zeroconf, service_type, name, state_change):
      try:
          if state_change == ServiceStateChange.Added:
              service_info = retry(lambda: zc.get_service_info(service_type, name, timeout=...))
              service_updated(name, service_info)
          elif state_change == ServiceStateChange.Removed:
              service_removed(name)
          elif state_change == ServiceStateChange.Updated:
              service_info = retry(lambda: zc.get_service_info(service_type, name, timeout=...))
              service_updated(name, service_info)
      except Exception:
          fatal_error()
          error_event.set()

  while not (exit_event.is_set() or error_event.is_set()):
      sleep(0.1)
  if exit_event.is_set():
      try:
          remove_all_a_records()
      except Exception:
          logging.exception("Error on shutdown")
  \<close>
  The discovery provider is a parameter \<open>get_service_info\<close>: its answer to lookup number
  \<open>k\<close> for a service type and an instance name is metadata, \<^verbatim>\<open>None\<close>, or an exception.
\<close>

datatype ServiceStateChange = Added | Removed | Updated

definition fatal_error :: "mirror_state \<Rightarrow> mirror_state" where
  "fatal_error st = st\<lparr>stderr := stderr st @ [''A fatal error occurred.'']\<rparr>"

definition lookup ::
  "(nat \<Rightarrow> string \<Rightarrow> string \<Rightarrow> exn + ServiceInfo option) \<Rightarrow> string \<Rightarrow> string \<Rightarrow>
   mirror_state \<Rightarrow> (exn + ServiceInfo option) \<times> mirror_state" where
  "lookup get_service_info service_type nm st =
     (get_service_info (lookups st) service_type nm, st\<lparr>lookups := Suc (lookups st)\<rparr>)"

definition on_service_instance_state_change ::
  "(nat \<Rightarrow> bool) \<Rightarrow> (nat \<Rightarrow> string \<Rightarrow> string \<Rightarrow> exn + ServiceInfo option) \<Rightarrow>
   string \<Rightarrow> string \<Rightarrow> ServiceStateChange \<Rightarrow> mirror_state \<Rightarrow> mirror_state" where
  "on_service_instance_state_change net get_service_info service_type nm state_change st =
     (case (case state_change of
              Added \<Rightarrow>
                and_then (retry (lookup get_service_info service_type nm) MAX_RETRIES st)
                  (\<lambda>service_info. service_updated net nm service_info)
            | Removed \<Rightarrow> service_removed net nm st
            | Updated \<Rightarrow>
                and_then (retry (lookup get_service_info service_type nm) MAX_RETRIES st)
                  (\<lambda>service_info. service_updated net nm service_info)) of
        (Inl e, st') \<Rightarrow> (fatal_error st')\<lparr>error_event := True\<rparr>
      | (Inr _, st') \<Rightarrow> st')"

definition main_loop_continues :: "mirror_state \<Rightarrow> bool" where
  "main_loop_continues st = (\<not> (exit_event st \<or> error_event st))"

definition shutdown :: "(nat \<Rightarrow> bool) \<Rightarrow> mirror_state \<Rightarrow> mirror_state" where
  "shutdown net st = (if exit_event st then snd (remove_all_a_records net st) else st)"

subsection \<open>Sequences of reconciler operations and the store invariants\<close>

text \<open>
  A run of upserts and removals, each applied to the state the previous one left, whether
  it returned or raised (an exception does not undo what the operation had already done).
\<close>

datatype operation = Upsert string ServiceInfo | Remove string

fun step :: "(nat \<Rightarrow> bool) \<Rightarrow> operation \<Rightarrow> mirror_state \<Rightarrow> mirror_state" where
  "step net (Upsert nm service_info) st = snd (service_updated net nm service_info st)"
| "step net (Remove nm) st = snd (service_removed net nm st)"

fun run :: "(nat \<Rightarrow> bool) \<Rightarrow> operation list \<Rightarrow> mirror_state \<Rightarrow> mirror_state" where
  "run net [] st = st"
| "run net (operation # operations) st = run net operations (step net operation st)"

text \<open>Every stored reference points to an object that exists.\<close>

definition allocated :: "mirror_state \<Rightarrow> bool" where
  "allocated st = (\<forall>srv r. servers st srv = Some r \<longrightarrow> r < length (objects st))"

text \<open>The snapshot stored for a server, read through its reference.\<close>

definition snapshot :: "mirror_state \<Rightarrow> string \<Rightarrow> ServerInfo option" where
  "snapshot st srv = (case servers st srv of None \<Rightarrow> None | Some r \<Rightarrow> Some (objects st ! r))"

text \<open>
  The invariant of the data model: a snapshot is stored for a server exactly when some
  stored service instance references that server.
\<close>

definition snapshot_iff_referenced :: "mirror_state \<Rightarrow> bool" where
  "snapshot_iff_referenced st =
     (\<forall>srv. (servers st srv \<noteq> None) = (\<exists>nm service_info. services st nm = Some service_info \<and> server service_info = srv))"

text \<open>
  An operation keeps to one server per instance and one instance per server when: an
  upsert of a stored instance names the server it already has, and a stored instance that
  is removed is the only stored instance of its server.
\<close>

definition exclusive :: "operation \<Rightarrow> mirror_state \<Rightarrow> bool" where
  "exclusive operation st =
     (case operation of
        Upsert nm service_info \<Rightarrow>
          (case services st nm of None \<Rightarrow> True | Some old \<Rightarrow> server old = server service_info)
      | Remove nm \<Rightarrow>
          (case services st nm of
             None \<Rightarrow> True
           | Some old \<Rightarrow> (\<forall>other info. other \<noteq> nm \<and> services st other = Some info \<longrightarrow> server info \<noteq> server old)))"

fun all_exclusive :: "(nat \<Rightarrow> bool) \<Rightarrow> operation list \<Rightarrow> mirror_state \<Rightarrow> bool" where
  "all_exclusive net [] st = True"
| "all_exclusive net (operation # operations) st =
     (exclusive operation st \<and> all_exclusive net operations (step net operation st))"

subsection \<open>Auxiliary notions for the statements\<close>

text \<open>A zone transfer rrset the sweep acts on: one of type A or AAAA.\<close>

definition address_record :: "rrset \<Rightarrow> bool" where
  "address_record rrset = (rdtype rrset = RdataType_A \<or> rdtype rrset = RdataType_AAAA)"

text \<open>
  The messages \<^verbatim>\<open>server_updated\<close> sends when no exchange fails: a replace of the A rrset
  if the snapshot has an IPv4 address, then a replace of the AAAA rrset if it has an IPv6
  address, both at the first label of the server string.
\<close>

definition replaces :: "string \<Rightarrow> ServerInfo \<Rightarrow> message list" where
  "replaces srv server_info =
     (case ipv4_address server_info of
        None \<Rightarrow> []
      | Some a \<Rightarrow> [Update (Replace (str_split (CHR ''.'') srv ! 0) (ttl server_info) RdataType_A (IPv4Address a))]) @
     (case ipv6_address server_info of
        None \<Rightarrow> []
      | Some a \<Rightarrow> [Update (Replace (str_split (CHR ''.'') srv ! 0) (ttl server_info) RdataType_AAAA (IPv6Address a))])"

text \<open>The messages sent between a state and a later one.\<close>

definition issued :: "mirror_state \<Rightarrow> mirror_state \<Rightarrow> message list" where
  "issued st st' = drop (length (sent st)) (sent st')"

subsection \<open>Inputs used in the examples\<close>

text \<open>An operation that returns \<^verbatim>\<open>None\<close> once and raises at its second invocation.\<close>

definition raises_second :: "nat \<Rightarrow> (exn + unit option) \<times> nat" where
  "raises_second = (\<lambda>s. (if s = 0 then Inr None else Inl OSError, Suc s))"

text \<open>
  Metadata of three hosts: \<open>host1.local\<close> at 10.0.0.5 and \<open>host1.lan\<close> at 10.0.0.6, whose
  server strings differ and share the first label, and \<open>cam.local\<close> with an IPv6 address only.
\<close>

definition host1 :: ServiceInfo where
  "host1 = \<lparr>server = ''host1.local'', ipv4_addresses = [0x0A000005], ipv6_addresses = [], host_ttl = 120\<rparr>"

definition host1_lan :: ServiceInfo where
  "host1_lan = \<lparr>server = ''host1.lan'', ipv4_addresses = [0x0A000006], ipv6_addresses = [], host_ttl = 120\<rparr>"

definition cam :: ServiceInfo where
  "cam = \<lparr>server = ''cam.local'', ipv4_addresses = [], ipv6_addresses = [1], host_ttl = 60\<rparr>"

text \<open>A network on which every exchange succeeds, and one on which every exchange fails.\<close>

definition net_up :: "nat \<Rightarrow> bool" where
  "net_up = (\<lambda>k. True)"

definition net_down :: "nat \<Rightarrow> bool" where
  "net_down = (\<lambda>k. False)"

text \<open>A zone with an A and an AAAA rrset at one owner name, and the SOA (type 6) at the apex.\<close>

definition zone0 :: "rrset list" where
  "zone0 = [\<lparr>rr_name = ''cam'', rdtype = RdataType_A\<rparr>, \<lparr>rr_name = ''cam'', rdtype = RdataType_AAAA\<rparr>,
            \<lparr>rr_name = ''mdns.lan'', rdtype = 6\<rparr>]"

text \<open>
  A discovery provider that is not ready at the first lookup and answers \<open>host1\<close> afterwards,
  and the state after instance \<open>a\<close> was added and then removed under it (scenario C of the
  specification, before the second removal).
\<close>

definition provider :: "nat \<Rightarrow> string \<Rightarrow> string \<Rightarrow> exn + ServiceInfo option" where
  "provider = (\<lambda>k service_type nm. if k = 0 then Inr None else Inr (Some host1))"

definition scenario_c :: mirror_state where
  "scenario_c =
     on_service_instance_state_change net_up provider ''_srv._tcp.local.'' ''a'' Removed
       (on_service_instance_state_change net_up provider ''_srv._tcp.local.'' ''a'' Added (initial []))"

section \<open>The retry wrapper\<close>

lemma and_then_Inl [simp]: "and_then (Inl e, s) f = (Inl e, s)"
  by (simp add: and_then_def)

lemma and_then_Inr [simp]: "and_then (Inr x, s) f = f x s"
  by (simp add: and_then_def)

lemma range_py_MAX_RETRIES: "range_py MAX_RETRIES = [0, 1, 2]"
  by (simp add: range_py_def MAX_RETRIES_def upt_rec)

text \<open>
  The loop stops at the first invocation that raises: with \<open>k\<close> empty results before it,
  the operation has been invoked \<open>k + 1\<close> times and the exception is the loop's result.
\<close>

lemma retry_for_raises:
  assumes "k < length ns"
      and "\<forall>i<k. fst (callable (after_calls callable i s)) = Inr None"
      and "fst (callable (after_calls callable k s)) = Inl e"
  shows "retry_for ns (counted callable) (s, n) =
           (Inl e, (after_calls callable (Suc k) s, n + Suc k))"
  using assms
proof (induction k arbitrary: ns s n)
  case 0
  then obtain m ms where ns: "ns = m # ms" by (cases ns) auto
  from 0 obtain s' where "callable s = (Inl e, s')" by (cases "callable s") auto
  then show ?case by (simp add: ns counted_def)
next
  case (Suc k)
  then obtain m ms where ns: "ns = m # ms" by (cases ns) auto
  from Suc.prems(2) have "fst (callable (after_calls callable 0 s)) = Inr None" by blast
  then obtain s' where cs: "callable s = (Inr None, s')" by (cases "callable s") auto
  have a: "k < length ms" using Suc.prems(1) ns by simp
  have b: "\<forall>i<k. fst (callable (after_calls callable i s')) = Inr None"
  proof (intro allI impI)
    fix i assume "i < k"
    then have "fst (callable (after_calls callable (Suc i) s)) = Inr None"
      using Suc.prems(2) by auto
    then show "fst (callable (after_calls callable i s')) = Inr None" using cs by simp
  qed
  have c: "fst (callable (after_calls callable k s')) = Inl e" using Suc.prems(3) cs by simp
  from Suc.IH[OF a b c, of "Suc n"] show ?case by (simp add: ns counted_def cs)
qed

text \<open>
  C3. The claim: for every \<open>maxAttempts \<ge> 1\<close>, an operation that always returns an empty
  result is invoked exactly \<open>maxAttempts\<close> times, never more, before the failure. The code
  loops over \<^verbatim>\<open>range(MAX_RETRIES)\<close> instead of \<^verbatim>\<open>range(max_retries)\<close>: called with
  \<open>max_retries = 1\<close> on an operation that is never ready, it invokes the operation three
  times and then raises the error whose message says one retry.
\<close>

theorem C3_retry_ignores_max_retries:
  "retry (counted never_ready) 1 ((), 0) = (Inl (RuntimeError (no_result_returned 1)), ((), 3))"
  by (simp add: retry_def range_py_MAX_RETRIES counted_def never_ready_def)

text \<open>
  C10. If the wrapped operation raises at some attempt within the loop's bound, all earlier
  attempts having returned an empty result, \<open>retry\<close> raises that same exception and the
  operation has been invoked exactly as many times as that attempt's number: no attempt
  follows the one that raised.
\<close>

theorem C10_retry_propagates_exception:
  assumes "k < nat MAX_RETRIES"
      and "\<forall>i<k. fst (callable (after_calls callable i s)) = Inr None"
      and "fst (callable (after_calls callable k s)) = Inl e"
  shows "retry (counted callable) max_retries (s, 0) =
           (Inl e, (after_calls callable (Suc k) s, Suc k))"
proof -
  have "k < length (range_py MAX_RETRIES)" using assms(1) by (simp add: range_py_def)
  from retry_for_raises[OF this assms(2) assms(3), of 0] show ?thesis
    by (simp add: retry_def)
qed

text \<open>
  An operation that is not ready at its first invocation and raises at its second: two
  invocations, and the exception comes out of \<open>retry\<close>.
\<close>

theorem C10_retry_propagates_exception_witness:
  "retry (counted raises_second) 7 (0, 0) = (Inl OSError, (2, 2))"
  using C10_retry_propagates_exception[of 1 raises_second 0 OSError 7]
  by (simp add: raises_second_def MAX_RETRIES_def)

section \<open>Effects of the operations on the shared state\<close>

lemma str_split_nonempty: "str_split sep s \<noteq> []"
  by (induction s) (auto split: list.splits)

text \<open>The first element of the split, the server name of the DNS updates, is the first label.\<close>

lemma str_split_first: "str_split sep s ! 0 = takeWhile (\<lambda>c. c \<noteq> sep) s"
proof (induction s)
  case Nil
  show ?case by simp
next
  case (Cons c cs)
  then show ?case using str_split_nonempty[of sep cs]
    by (cases "str_split sep cs") auto
qed

lemma tcp_ok:
  "net (length (sent st)) \<Longrightarrow>
   tcp net q st = (Inr (dns_answer q (zone st)), st\<lparr>sent := sent st @ [q], zone := dns_apply q (zone st)\<rparr>)"
  by (simp add: tcp_def)

lemma tcp_fail:
  "\<not> net (length (sent st)) \<Longrightarrow> tcp net q st = (Inl OSError, st\<lparr>sent := sent st @ [q]\<rparr>)"
  by (simp add: tcp_def)

lemma RdataType_distinct: "RdataType_A \<noteq> RdataType_AAAA"
  by (simp add: RdataType_A_def RdataType_AAAA_def)

lemma mutations_append: "mutations (ms @ ms') = mutations ms @ mutations ms'"
  by (induction ms rule: mutations.induct) simp_all

lemma mutations_Update: "mutations (map Update us) = us"
  by (induction us) simp_all

text \<open>Issuing DNS updates touches neither dictionary nor the object store.\<close>

lemma server_updated_stores:
  "services (snd (server_updated net srv info st)) = services st"
  "servers (snd (server_updated net srv info st)) = servers st"
  "objects (snd (server_updated net srv info st)) = objects st"
  by (simp_all add: server_updated_def tcp_def Let_def and_then_def
      split: option.splits prod.splits sum.splits)

lemma server_removed_stores:
  "services (snd (server_removed net srv info st)) = services st"
  "servers (snd (server_removed net srv info st)) = servers st"
  "objects (snd (server_removed net srv info st)) = objects st"
  by (cases "net (length (sent st))"; simp add: server_removed_def tcp_def Let_def)+

text \<open>What \<^verbatim>\<open>server_updated\<close> sends is an initial part of \<open>replaces\<close>: it stops at a failure.\<close>

lemma server_updated_sent:
  "\<exists>j. sent (snd (server_updated net srv info st)) = sent st @ take j (replaces srv info)"
proof (cases "ipv4_address info")
  case None
  show ?thesis
  proof (cases "ipv6_address info")
    case n6: None
    show ?thesis by (simp add: server_updated_def replaces_def None n6)
  next
    case (Some b)
    have "sent (snd (server_updated net srv info st)) = sent st @ take 1 (replaces srv info)"
      by (cases "net (length (sent st))")
         (simp_all add: server_updated_def replaces_def None Some tcp_ok tcp_fail Let_def)
    then show ?thesis by blast
  qed
next
  case (Some a)
  show ?thesis
  proof (cases "net (length (sent st))")
    case False
    have "sent (snd (server_updated net srv info st)) = sent st @ take 1 (replaces srv info)"
      by (simp add: server_updated_def replaces_def Some False tcp_fail Let_def split: option.splits)
    then show ?thesis by blast
  next
    case True
    have "sent (snd (server_updated net srv info st)) = sent st @ take 2 (replaces srv info)"
      by (cases "net (Suc (length (sent st)))")
         (simp_all add: server_updated_def replaces_def Some True tcp_def Let_def split: option.splits)
    then show ?thesis by blast
  qed
qed

text \<open>Its outcome and its messages depend on the state through \<open>sent\<close> only.\<close>

lemma server_updated_reads_sent_only:
  assumes "sent st' = sent st"
  shows "fst (server_updated net srv info st') = fst (server_updated net srv info st)"
    and "sent (snd (server_updated net srv info st')) = sent (snd (server_updated net srv info st))"
  using assms
  by (cases "net (length (sent st))"; cases "net (Suc (length (sent st)))";
      simp add: server_updated_def tcp_def Let_def split: option.splits)+

lemma server_updated_zone_A:
  "ipv4_address info = None \<Longrightarrow>
   filter (\<lambda>rr. rdtype rr = RdataType_A) (zone (snd (server_updated net srv info st))) =
   filter (\<lambda>rr. rdtype rr = RdataType_A) (zone st)"
  using RdataType_distinct
  by (cases "net (length (sent st))"; cases "ipv6_address info")
     (auto simp add: server_updated_def tcp_def Let_def intro: filter_cong)

lemma server_updated_zone_AAAA:
  "ipv6_address info = None \<Longrightarrow>
   filter (\<lambda>rr. rdtype rr = RdataType_AAAA) (zone (snd (server_updated net srv info st))) =
   filter (\<lambda>rr. rdtype rr = RdataType_AAAA) (zone st)"
  using RdataType_distinct
  by (cases "net (length (sent st))"; cases "ipv4_address info")
     (auto simp add: server_updated_def tcp_def Let_def intro: filter_cong)

text \<open>The dictionaries and the object store after an upsert and after a removal.\<close>

lemma service_updated_servers:
  "servers (snd (service_updated net nm info st)) = (servers st)(server info \<mapsto> length (objects st))"
  by (auto simp add: service_updated_def Let_def server_updated_stores)

lemma service_updated_objects:
  "objects (snd (service_updated net nm info st)) = objects st @ [candidate info]"
  by (simp add: service_updated_def Let_def server_updated_stores)

lemma service_updated_services:
  "services (snd (service_updated net nm info st)) = (services st)(nm \<mapsto> info)"
  by (simp add: service_updated_def Let_def server_updated_stores)

lemma service_removed_services:
  "services (snd (service_removed net nm st)) = (services st)(nm := None)"
  by (auto simp add: service_removed_def Let_def server_removed_stores split: option.splits)

lemma service_removed_servers:
  "servers (snd (service_removed net nm st)) =
     (case services st nm of None \<Rightarrow> servers st | Some info \<Rightarrow> (servers st)(server info := None))"
  by (auto simp add: service_removed_def Let_def server_removed_stores split: option.splits)

lemma service_removed_objects:
  "objects (snd (service_removed net nm st)) = objects st"
  by (auto simp add: service_removed_def Let_def server_removed_stores split: option.splits)

text \<open>
  Every state the program reaches is \<open>allocated\<close>: the initial one is, and upserts and
  removals keep it so. In such a state the object an upsert creates is none of the stored
  ones, so the comparison \<^verbatim>\<open>servers.get(server, None) != server_info\<close> is true.
\<close>

lemma allocated_initial: "allocated (initial z)"
  by (simp add: allocated_def initial_def)

lemma allocated_step: "allocated st \<Longrightarrow> allocated (step net operation st)"
  by (cases operation)
     (auto simp add: allocated_def service_updated_servers service_updated_objects
        service_removed_servers service_removed_objects less_Suc_eq split: option.splits if_splits)

lemma allocated_run: "allocated st \<Longrightarrow> allocated (run net operations st)"
  by (induction operations arbitrary: st) (simp_all add: allocated_step)

lemma allocated_differs: "allocated st \<Longrightarrow> servers st srv \<noteq> Some (length (objects st))"
  by (auto simp add: allocated_def)

lemma service_updated_allocated:
  assumes "allocated st"
  shows "service_updated net nm service_info st =
           server_updated net (server service_info) (candidate service_info)
             (st\<lparr>services := (services st)(nm \<mapsto> service_info),
                 objects := objects st @ [candidate service_info],
                 servers := (servers st)(server service_info \<mapsto> length (objects st))\<rparr>)"
  using allocated_differs[OF assms, of "server service_info"]
  by (simp add: service_updated_def Let_def)

lemma service_updated_sent:
  "\<exists>j. sent (snd (service_updated net nm info st)) =
        sent st @ take j (replaces (server info) (candidate info))"
proof (cases "servers st (server info) = Some (length (objects st))")
  case True
  then have "sent (snd (service_updated net nm info st)) =
        sent st @ take 0 (replaces (server info) (candidate info))"
    by (simp add: service_updated_def Let_def)
  then show ?thesis by blast
next
  case False
  then have "service_updated net nm info st =
           server_updated net (server info) (candidate info)
             (st\<lparr>services := (services st)(nm \<mapsto> info),
                 objects := objects st @ [candidate info],
                 servers := (servers st)(server info \<mapsto> length (objects st))\<rparr>)"
    by (simp add: service_updated_def Let_def)
  then show ?thesis
    using server_updated_sent[of net "server info" "candidate info"
        "st\<lparr>services := (services st)(nm \<mapsto> info),
                 objects := objects st @ [candidate info],
                 servers := (servers st)(server info \<mapsto> length (objects st))\<rparr>"]
    by simp
qed

lemmas eval_defs = snapshot_def service_updated_def service_removed_def server_updated_def
  server_removed_def candidate_def initial_def tcp_def Let_def

section \<open>The reconciler\<close>

text \<open>
  C1. The claim: of two consecutive upserts whose metadata yields structurally identical
  snapshots, only the first issues DNS mutations. The code compares the stored snapshot
  with the candidate by \<^verbatim>\<open>!=\<close> on a class without \<^verbatim>\<open>__eq__\<close>, that is by identity, and
  the candidate is a new object at every call. Upserting instance \<open>a\<close> twice with the
  metadata of \<open>host1\<close>: the snapshot stored by the first call has the three fields of the
  second call's candidate, and still the replace of the A record is sent twice.
\<close>

theorem C1_second_upsert_reissues:
  "snapshot (run net_up [Upsert ''a'' host1] (initial [])) ''host1.local'' = Some (candidate host1)
   \<and> mutations (sent (run net_up [Upsert ''a'' host1] (initial []))) =
       [Replace ''host1'' (Some 120) RdataType_A (IPv4Address 0x0A000005)]
   \<and> mutations (sent (run net_up [Upsert ''a'' host1, Upsert ''a'' host1] (initial []))) =
       [Replace ''host1'' (Some 120) RdataType_A (IPv4Address 0x0A000005),
        Replace ''host1'' (Some 120) RdataType_A (IPv4Address 0x0A000005)]"
  by (simp add: snapshot_def service_updated_def server_updated_def candidate_def host1_def
      initial_def net_up_def tcp_def Let_def)

text \<open>
  C2. The claim: every sequence of upserts and removals keeps the invariant that a snapshot
  is stored for a server if and only if a stored instance references it. It fails: after
  instances \<open>a\<close> and \<open>b\<close> of one server are upserted and \<open>a\<close> is removed, \<open>b\<close> is still
  stored and its server has no snapshot.
\<close>

theorem C2_counterexample:
  "snapshot_iff_referenced (initial [])
   \<and> services (run net_up [Upsert ''a'' host1, Upsert ''b'' host1, Remove ''a''] (initial [])) ''b'' = Some host1
   \<and> servers (run net_up [Upsert ''a'' host1, Upsert ''b'' host1, Remove ''a''] (initial [])) (server host1) = None
   \<and> \<not> snapshot_iff_referenced (run net_up [Upsert ''a'' host1, Upsert ''b'' host1, Remove ''a''] (initial []))"
proof -
  let ?st = "run net_up [Upsert ''a'' host1, Upsert ''b'' host1, Remove ''a''] (initial [])"
  have i: "snapshot_iff_referenced (initial [])"
    by (simp add: snapshot_iff_referenced_def initial_def)
  have a: "services ?st ''b'' = Some host1"
    by (simp add: service_updated_services service_removed_services)
  have b: "servers ?st (server host1) = None"
    by (simp add: service_updated_services service_updated_servers service_removed_servers)
  have "\<not> snapshot_iff_referenced ?st"
    unfolding snapshot_iff_referenced_def using a b by blast
  with i a b show ?thesis by blast
qed

text \<open>One exclusive operation keeps the invariant, whether its DNS updates succeed or not.\<close>

lemma exclusive_step:
  assumes inv: "snapshot_iff_referenced st" and ex: "exclusive operation st"
  shows "snapshot_iff_referenced (step net operation st)"
proof (cases operation)
  case (Upsert nm info)
  have other: "server old = server info" if "services st nm = Some old" for old
    using ex that by (simp add: exclusive_def Upsert)
  show ?thesis
    unfolding snapshot_iff_referenced_def
  proof
    fix srv
    show "(servers (step net operation st) srv \<noteq> None) =
          (\<exists>n i. services (step net operation st) n = Some i \<and> server i = srv)"
    proof (cases "srv = server info")
      case True
      then show ?thesis
        by (auto simp add: Upsert service_updated_servers service_updated_services)
    next
      case False
      have "(servers st srv \<noteq> None) = (\<exists>n i. services st n = Some i \<and> server i = srv)"
        using inv by (simp add: snapshot_iff_referenced_def)
      also have "\<dots> = (\<exists>n i. ((services st)(nm \<mapsto> info)) n = Some i \<and> server i = srv)"
      proof
        assume "\<exists>n i. services st n = Some i \<and> server i = srv"
        then obtain n i where ni: "services st n = Some i" "server i = srv" by blast
        with False other have "n \<noteq> nm" by auto
        with ni show "\<exists>n i. ((services st)(nm \<mapsto> info)) n = Some i \<and> server i = srv" by auto
      next
        assume "\<exists>n i. ((services st)(nm \<mapsto> info)) n = Some i \<and> server i = srv"
        then show "\<exists>n i. services st n = Some i \<and> server i = srv"
          using False by (auto split: if_splits)
      qed
      finally show ?thesis
        using False by (simp add: Upsert service_updated_servers service_updated_services)
    qed
  qed
next
  case (Remove nm)
  show ?thesis
  proof (cases "services st nm")
    case None
    have "services (step net operation st) = services st"
      using None by (simp add: Remove service_removed_services fun_eq_iff)
    moreover have "servers (step net operation st) = servers st"
      using None by (simp add: Remove service_removed_servers)
    ultimately show ?thesis using inv by (simp add: snapshot_iff_referenced_def)
  next
    case (Some old)
    have alone: "server i \<noteq> server old" if "n \<noteq> nm" "services st n = Some i" for n i
      using ex that by (simp add: exclusive_def Remove Some)
    show ?thesis
      unfolding snapshot_iff_referenced_def
    proof
      fix srv
      have sv: "servers (step net operation st) = (servers st)(server old := None)"
        by (simp add: Remove service_removed_servers Some)
      have sc: "services (step net operation st) = (services st)(nm := None)"
        by (simp add: Remove service_removed_services)
      show "(servers (step net operation st) srv \<noteq> None) =
            (\<exists>n i. services (step net operation st) n = Some i \<and> server i = srv)"
      proof (cases "srv = server old")
        case True
        then show ?thesis using alone by (auto simp add: sv sc)
      next
        case False
        have "(servers st srv \<noteq> None) = (\<exists>n i. services st n = Some i \<and> server i = srv)"
          using inv by (simp add: snapshot_iff_referenced_def)
        also have "\<dots> = (\<exists>n i. ((services st)(nm := None)) n = Some i \<and> server i = srv)"
        proof
          assume "\<exists>n i. services st n = Some i \<and> server i = srv"
          then obtain n i where ni: "services st n = Some i" "server i = srv" by blast
          with False Some have "n \<noteq> nm" by auto
          with ni show "\<exists>n i. ((services st)(nm := None)) n = Some i \<and> server i = srv" by auto
        next
          assume "\<exists>n i. ((services st)(nm := None)) n = Some i \<and> server i = srv"
          then show "\<exists>n i. services st n = Some i \<and> server i = srv"
            by (auto split: if_splits)
        qed
        finally show ?thesis using False by (simp add: sv sc)
      qed
    qed
  qed
qed

text \<open>
  C2, as amended. The invariant is kept by every sequence of upserts and removals in which
  each upsert of a stored instance names the server that instance already has, and each
  removal of a stored instance removes the only stored instance of its server. (The code
  counts no references: a removal deletes the snapshot of the instance's server whoever
  else uses it, and an upsert never deletes a snapshot.)
\<close>

theorem C2_exclusive_runs_keep_invariant:
  "snapshot_iff_referenced st \<Longrightarrow> all_exclusive net operations st \<Longrightarrow>
   snapshot_iff_referenced (run net operations st)"
  by (induction operations arbitrary: st) (simp_all add: exclusive_step)

text \<open>
  A run on a network that is down: \<open>a\<close> upserted twice, \<open>c\<close> upserted on another server,
  \<open>a\<close> removed, and removed again (which raises and changes nothing).
\<close>

theorem C2_exclusive_runs_keep_invariant_witness:
  "snapshot_iff_referenced (initial [])
   \<and> all_exclusive net_down [Upsert ''a'' host1, Upsert ''a'' host1, Upsert ''c'' cam, Remove ''a'', Remove ''a''] (initial [])
   \<and> snapshot_iff_referenced
       (run net_down [Upsert ''a'' host1, Upsert ''a'' host1, Upsert ''c'' cam, Remove ''a'', Remove ''a''] (initial []))"
proof -
  have i: "snapshot_iff_referenced (initial [])"
    by (simp add: snapshot_iff_referenced_def initial_def)
  have e: "all_exclusive net_down [Upsert ''a'' host1, Upsert ''a'' host1, Upsert ''c'' cam, Remove ''a'', Remove ''a''] (initial [])"
    by (simp add: exclusive_def service_updated_services service_removed_services initial_def
        host1_def cam_def)
  from C2_exclusive_runs_keep_invariant[OF i e] i e show ?thesis by blast
qed

text \<open>
  C4. The claim: the snapshot compared and the key under which the new snapshot is stored
  is the first label of \<^verbatim>\<open>metadata.server\<close>, so that upserts whose server strings share the
  first label use one entry. It fails: \<open>host1.local\<close> and \<open>host1.lan\<close> have the first label
  \<open>host1\<close> in common, and after an upsert of each the store holds two entries, under the
  two whole strings, and none under \<open>host1\<close>.
\<close>

theorem C4_counterexample:
  "str_split (CHR ''.'') (server host1) ! 0 = ''host1''
   \<and> str_split (CHR ''.'') (server host1_lan) ! 0 = ''host1''
   \<and> servers (run net_up [Upsert ''a'' host1, Upsert ''b'' host1_lan] (initial [])) ''host1.local'' = Some 0
   \<and> servers (run net_up [Upsert ''a'' host1, Upsert ''b'' host1_lan] (initial [])) ''host1.lan'' = Some 1
   \<and> servers (run net_up [Upsert ''a'' host1, Upsert ''b'' host1_lan] (initial [])) ''host1'' = None"
  by (simp add: service_updated_servers service_updated_objects host1_def host1_lan_def initial_def)

text \<open>
  C4, as amended. For every upsert, the key under which the new snapshot is stored, and
  the only key of the server store whose entry the upsert's outcome and DNS messages depend
  on, is the whole string \<^verbatim>\<open>metadata.server\<close>: the entry of that key becomes the candidate,
  every other entry is left as it was, and changing the entry of any other key beforehand
  changes neither the outcome nor the messages sent. Hence two upserts use one and the same
  entry exactly when their server strings are equal.
\<close>

theorem C4_snapshot_keyed_by_server_string:
  "servers (snd (service_updated net nm service_info st)) =
     (servers st)(server service_info \<mapsto> length (objects st))
   \<and> objects (snd (service_updated net nm service_info st)) = objects st @ [candidate service_info]
   \<and> snapshot (snd (service_updated net nm service_info st)) (server service_info) =
       Some (candidate service_info)
   \<and> (k \<noteq> server service_info \<longrightarrow>
        fst (service_updated net nm service_info (st\<lparr>servers := (servers st)(k := v)\<rparr>)) =
          fst (service_updated net nm service_info st)
        \<and> sent (snd (service_updated net nm service_info (st\<lparr>servers := (servers st)(k := v)\<rparr>))) =
          sent (snd (service_updated net nm service_info st)))"
proof -
  have "fst (service_updated net nm service_info (st\<lparr>servers := (servers st)(k := v)\<rparr>)) =
          fst (service_updated net nm service_info st)
        \<and> sent (snd (service_updated net nm service_info (st\<lparr>servers := (servers st)(k := v)\<rparr>))) =
          sent (snd (service_updated net nm service_info st))"
    if "k \<noteq> server service_info"
  proof (cases "servers st (server service_info) = Some (length (objects st))")
    case True
    with that show ?thesis by (simp add: service_updated_def Let_def)
  next
    case False
    let ?a = "st\<lparr>servers := (servers st)(k := v), services := (services st)(nm \<mapsto> service_info),
                 objects := objects st @ [candidate service_info],
                 servers := (servers st)(k := v, server service_info \<mapsto> length (objects st))\<rparr>"
    let ?b = "st\<lparr>services := (services st)(nm \<mapsto> service_info),
                 objects := objects st @ [candidate service_info],
                 servers := (servers st)(server service_info \<mapsto> length (objects st))\<rparr>"
    have a: "service_updated net nm service_info (st\<lparr>servers := (servers st)(k := v)\<rparr>) =
        server_updated net (server service_info) (candidate service_info) ?a"
      using that False by (simp add: service_updated_def Let_def)
    have b: "service_updated net nm service_info st =
        server_updated net (server service_info) (candidate service_info) ?b"
      using False by (simp add: service_updated_def Let_def)
    have "sent ?a = sent ?b" by simp
    from server_updated_reads_sent_only[OF this] show ?thesis
      unfolding a b by blast
  qed
  then show ?thesis
    by (simp add: service_updated_servers service_updated_objects snapshot_def)
qed

text \<open>
  After one upsert of \<open>host1\<close>, an entry put under the first label \<open>host1\<close> makes no
  difference to a second upsert, which stores its snapshot under \<open>host1.local\<close>.
\<close>

theorem C4_snapshot_keyed_by_server_string_witness:
  "''host1'' \<noteq> server host1
   \<and> servers (snd (service_updated net_up ''a'' host1 (run net_up [Upsert ''a'' host1] (initial [])))) ''host1.local'' = Some 1
   \<and> sent (snd (service_updated net_up ''a'' host1
        ((run net_up [Upsert ''a'' host1] (initial []))
           \<lparr>servers := (servers (run net_up [Upsert ''a'' host1] (initial [])))(''host1'' := Some 0)\<rparr>))) =
     sent (snd (service_updated net_up ''a'' host1 (run net_up [Upsert ''a'' host1] (initial []))))"
proof -
  have d: "''host1'' \<noteq> server host1" by (simp add: host1_def)
  have o: "length (objects (run net_up [Upsert ''a'' host1] (initial []))) = 1"
    by (simp add: service_updated_objects initial_def)
  have s: "server host1 = ''host1.local''" by (simp add: host1_def)
  from C4_snapshot_keyed_by_server_string[of net_up "''a''" host1
      "run net_up [Upsert ''a'' host1] (initial [])" "''host1''" "Some 0"] d
  show ?thesis by (simp only: o s) simp
qed

text \<open>
  C5. For every upsert in a state the program can reach (where the candidate, a new object,
  always differs from the stored snapshot), the DNS updates are issued from a state in
  which the new snapshot is already stored and nothing has been sent yet; and the store
  holds the new snapshot when the upsert ends, whether it returned or a DNS update raised.
\<close>

theorem C5_snapshot_persisted_before_dns:
  assumes "allocated st"
  shows "(\<exists>persisted.
            sent persisted = sent st
          \<and> snapshot persisted (server service_info) = Some (candidate service_info)
          \<and> service_updated net nm service_info st =
              server_updated net (server service_info) (candidate service_info) persisted)
       \<and> snapshot (snd (service_updated net nm service_info st)) (server service_info) =
           Some (candidate service_info)"
proof
  let ?p = "st\<lparr>services := (services st)(nm \<mapsto> service_info),
                 objects := objects st @ [candidate service_info],
                 servers := (servers st)(server service_info \<mapsto> length (objects st))\<rparr>"
  have "sent ?p = sent st" by simp
  moreover have "snapshot ?p (server service_info) = Some (candidate service_info)"
    by (simp add: snapshot_def)
  ultimately show "\<exists>persisted.
            sent persisted = sent st
          \<and> snapshot persisted (server service_info) = Some (candidate service_info)
          \<and> service_updated net nm service_info st =
              server_updated net (server service_info) (candidate service_info) persisted"
    using service_updated_allocated[OF assms] by blast
next
  show "snapshot (snd (service_updated net nm service_info st)) (server service_info) =
           Some (candidate service_info)"
    by (simp add: service_updated_servers service_updated_objects snapshot_def)
qed

text \<open>
  The first upsert of \<open>host1\<close> on a network that is down: the replace of the A record is
  attempted and raises, the zone is unchanged, and the store holds the snapshot.
\<close>

theorem C5_snapshot_persisted_before_dns_witness:
  "allocated (initial [])
   \<and> fst (service_updated net_down ''a'' host1 (initial [])) = Inl OSError
   \<and> mutations (sent (snd (service_updated net_down ''a'' host1 (initial [])))) =
       [Replace ''host1'' (Some 120) RdataType_A (IPv4Address 0x0A000005)]
   \<and> zone (snd (service_updated net_down ''a'' host1 (initial []))) = []
   \<and> snapshot (snd (service_updated net_down ''a'' host1 (initial []))) ''host1.local'' =
       Some \<lparr>ipv4_address = Some 0x0A000005, ipv6_address = None, ttl = Some 120\<rparr>"
proof -
  have a: "allocated (initial [])" by (simp add: allocated_def initial_def)
  have s: "server host1 = ''host1.local''"
    and c: "candidate host1 = \<lparr>ipv4_address = Some 0x0A000005, ipv6_address = None, ttl = Some 120\<rparr>"
    by (simp_all add: host1_def candidate_def)
  have f: "fst (service_updated net_down ''a'' host1 (initial [])) = Inl OSError"
    by (simp add: eval_defs host1_def net_down_def)
  have m: "mutations (sent (snd (service_updated net_down ''a'' host1 (initial [])))) =
       [Replace ''host1'' (Some 120) RdataType_A (IPv4Address 0x0A000005)]"
    by (simp add: eval_defs host1_def net_down_def)
  have z: "zone (snd (service_updated net_down ''a'' host1 (initial []))) = []"
    by (simp add: eval_defs host1_def net_down_def)
  from C5_snapshot_persisted_before_dns[OF a, of host1 net_down "''a''"] a f m z show ?thesis
    by (simp add: s c)
qed

text \<open>What an upsert sends and leaves in the zone, by address family.\<close>

lemma service_updated_zone_A:
  "ipv4_addresses info = [] \<Longrightarrow>
   filter (\<lambda>rr. rdtype rr = RdataType_A) (zone (snd (service_updated net nm info st))) =
   filter (\<lambda>rr. rdtype rr = RdataType_A) (zone st)"
  by (simp add: service_updated_def Let_def server_updated_zone_A candidate_def)

lemma service_updated_zone_AAAA:
  "ipv6_addresses info = [] \<Longrightarrow>
   filter (\<lambda>rr. rdtype rr = RdataType_AAAA) (zone (snd (service_updated net nm info st))) =
   filter (\<lambda>rr. rdtype rr = RdataType_AAAA) (zone st)"
  by (simp add: service_updated_def Let_def server_updated_zone_AAAA candidate_def)

lemma replaces_no_A:
  "ipv4_addresses info = [] \<Longrightarrow> Update (Replace n t RdataType_A a) \<notin> set (replaces srv (candidate info))"
  using RdataType_distinct by (auto simp add: replaces_def candidate_def split: list.splits)

lemma replaces_no_AAAA:
  "ipv6_addresses info = [] \<Longrightarrow> Update (Replace n t RdataType_AAAA a) \<notin> set (replaces srv (candidate info))"
  using RdataType_distinct by (auto simp add: replaces_def candidate_def split: list.splits)

lemma replaces_no_Delete: "Update (Delete n) \<notin> set (replaces srv server_info)"
  by (auto simp add: replaces_def split: option.splits)

text \<open>
  C6. An upsert issues DNS mutations only for the address families its candidate has: with
  no IPv4 address no operation on an A rrset is sent and the A rrsets of the zone stay as
  they are; with no IPv6 address the same holds for AAAA; and no upsert sends a delete.
\<close>

theorem C6_only_present_families_replaced:
  "sent (snd (service_updated net nm info st)) = sent st @ issued st (snd (service_updated net nm info st))
   \<and> (ipv4_addresses info = [] \<longrightarrow>
        (\<forall>n t a. Update (Replace n t RdataType_A a) \<notin> set (issued st (snd (service_updated net nm info st))))
        \<and> filter (\<lambda>rr. rdtype rr = RdataType_A) (zone (snd (service_updated net nm info st))) =
          filter (\<lambda>rr. rdtype rr = RdataType_A) (zone st))
   \<and> (ipv6_addresses info = [] \<longrightarrow>
        (\<forall>n t a. Update (Replace n t RdataType_AAAA a) \<notin> set (issued st (snd (service_updated net nm info st))))
        \<and> filter (\<lambda>rr. rdtype rr = RdataType_AAAA) (zone (snd (service_updated net nm info st))) =
          filter (\<lambda>rr. rdtype rr = RdataType_AAAA) (zone st))
   \<and> (\<forall>n. Update (Delete n) \<notin> set (issued st (snd (service_updated net nm info st))))"
proof -
  obtain j where j: "sent (snd (service_updated net nm info st)) =
        sent st @ take j (replaces (server info) (candidate info))"
    using service_updated_sent by blast
  then have i: "issued st (snd (service_updated net nm info st)) =
      take j (replaces (server info) (candidate info))"
    by (simp add: issued_def)
  have sub: "m \<in> set (replaces (server info) (candidate info))"
    if "m \<in> set (issued st (snd (service_updated net nm info st)))" for m
    using that i by (auto dest: in_set_takeD)
  have 1: "sent (snd (service_updated net nm info st)) = sent st @ issued st (snd (service_updated net nm info st))"
    using j i by simp
  have 2: "Update (Replace n t RdataType_A a) \<notin> set (issued st (snd (service_updated net nm info st)))"
    if "ipv4_addresses info = []" for n t a
    using replaces_no_A[OF that] sub by blast
  have 3: "Update (Replace n t RdataType_AAAA a) \<notin> set (issued st (snd (service_updated net nm info st)))"
    if "ipv6_addresses info = []" for n t a
    using replaces_no_AAAA[OF that] sub by blast
  have 4: "Update (Delete n) \<notin> set (issued st (snd (service_updated net nm info st)))" for n
    using replaces_no_Delete sub by blast
  show ?thesis
    using 1 2 3 4 service_updated_zone_A service_updated_zone_AAAA by blast
qed

text \<open>
  On a zone that holds an A and an AAAA rrset for \<open>cam\<close>: an upsert of \<open>cam\<close>, which has
  an IPv6 address only, sends the replace of the AAAA rrset and the A rrset stays; an
  upsert of \<open>host1\<close>, which has an IPv4 address only, sends the replace of its A rrset and
  the AAAA rrset of the zone stays.
\<close>

theorem C6_only_present_families_replaced_witness:
  "ipv4_addresses cam = []
   \<and> issued (initial zone0) (snd (service_updated net_up ''c'' cam (initial zone0))) =
       [Update (Replace ''cam'' (Some 60) RdataType_AAAA (IPv6Address 1))]
   \<and> filter (\<lambda>rr. rdtype rr = RdataType_A) (zone (snd (service_updated net_up ''c'' cam (initial zone0)))) =
       [\<lparr>rr_name = ''cam'', rdtype = RdataType_A\<rparr>]
   \<and> ipv6_addresses host1 = []
   \<and> issued (initial zone0) (snd (service_updated net_up ''a'' host1 (initial zone0))) =
       [Update (Replace ''host1'' (Some 120) RdataType_A (IPv4Address 0x0A000005))]
   \<and> filter (\<lambda>rr. rdtype rr = RdataType_AAAA) (zone (snd (service_updated net_up ''a'' host1 (initial zone0)))) =
       [\<lparr>rr_name = ''cam'', rdtype = RdataType_AAAA\<rparr>]"
proof -
  have e: "ipv4_addresses cam = []" by (simp add: cam_def)
  have e': "ipv6_addresses host1 = []" by (simp add: host1_def)
  have i: "issued (initial zone0) (snd (service_updated net_up ''c'' cam (initial zone0))) =
       [Update (Replace ''cam'' (Some 60) RdataType_AAAA (IPv6Address 1))]"
    by (simp add: issued_def eval_defs cam_def net_up_def)
  have i': "issued (initial zone0) (snd (service_updated net_up ''a'' host1 (initial zone0))) =
       [Update (Replace ''host1'' (Some 120) RdataType_A (IPv4Address 0x0A000005))]"
    by (simp add: issued_def eval_defs host1_def net_up_def)
  have z: "filter (\<lambda>rr. rdtype rr = RdataType_A) (zone (initial zone0)) = [\<lparr>rr_name = ''cam'', rdtype = RdataType_A\<rparr>]"
    by (simp add: initial_def zone0_def RdataType_A_def RdataType_AAAA_def)
  have z': "filter (\<lambda>rr. rdtype rr = RdataType_AAAA) (zone (initial zone0)) = [\<lparr>rr_name = ''cam'', rdtype = RdataType_AAAA\<rparr>]"
    by (simp add: initial_def zone0_def RdataType_A_def RdataType_AAAA_def)
  from C6_only_present_families_replaced[of net_up "''c''" cam "initial zone0"]
    C6_only_present_families_replaced[of net_up "''a''" host1 "initial zone0"] e e' i i' z z'
  show ?thesis by simp
qed

section \<open>The event handler\<close>

text \<open>
  C7. A removal event for an instance that has no stored record is fatal: the handler
  writes the failure notice, sets the fatal-error flag, and with that flag the main loop
  ends; nothing else in the state changes, and in particular no DNS message is sent.
\<close>

theorem C7_removal_of_unknown_instance_is_fatal:
  assumes "services st nm = None"
  shows "on_service_instance_state_change net get_service_info service_type nm Removed st =
           st\<lparr>stderr := stderr st @ [''A fatal error occurred.''], error_event := True\<rparr>
       \<and> error_event (on_service_instance_state_change net get_service_info service_type nm Removed st)
       \<and> \<not> main_loop_continues (on_service_instance_state_change net get_service_info service_type nm Removed st)"
  using assms
  by (simp add: on_service_instance_state_change_def service_removed_def fatal_error_def
      main_loop_continues_def)

lemma scenario_c_eval:
  "scenario_c = \<lparr>services = Map.empty, servers = Map.empty, objects = [candidate host1],
     exit_event = False, error_event = False, zone = [],
     sent = [Update (Replace ''host1'' (Some 120) RdataType_A (IPv4Address 0x0A000005)),
             Update (Delete ''host1'')],
     lookups = 2, stderr = []\<rparr>"
  by (simp add: scenario_c_def on_service_instance_state_change_def retry_def range_py_MAX_RETRIES
      lookup_def provider_def eval_defs host1_def net_up_def RdataType_A_def)

text \<open>
  Scenario C: instance \<open>a\<close> is added (the metadata arrives at the second lookup) and
  removed, which replaces the A record of \<open>host1\<close> and then deletes the name; the main loop
  still runs. A second removal event for \<open>a\<close> sends nothing and ends the main loop.
\<close>

theorem C7_removal_of_unknown_instance_is_fatal_witness:
  "services scenario_c ''a'' = None
   \<and> mutations (sent scenario_c) =
       [Replace ''host1'' (Some 120) RdataType_A (IPv4Address 0x0A000005), Delete ''host1'']
   \<and> main_loop_continues scenario_c
   \<and> sent (on_service_instance_state_change net_up provider ''_srv._tcp.local.'' ''a'' Removed scenario_c) =
       sent scenario_c
   \<and> error_event (on_service_instance_state_change net_up provider ''_srv._tcp.local.'' ''a'' Removed scenario_c)
   \<and> \<not> main_loop_continues
         (on_service_instance_state_change net_up provider ''_srv._tcp.local.'' ''a'' Removed scenario_c)"
proof -
  have a: "services scenario_c ''a'' = None" by (simp add: scenario_c_eval)
  have m: "mutations (sent scenario_c) =
       [Replace ''host1'' (Some 120) RdataType_A (IPv4Address 0x0A000005), Delete ''host1'']"
    by (simp add: scenario_c_eval)
  have c: "main_loop_continues scenario_c" by (simp add: scenario_c_eval main_loop_continues_def)
  from C7_removal_of_unknown_instance_is_fatal[OF a, of net_up provider "''_srv._tcp.local.''"] a m c
  show ?thesis by (simp add: main_loop_continues_def)
qed

section \<open>The zone sweep\<close>

lemma collect_address_records:
  "collect_record_names answer acc = acc @ map rr_name (filter address_record answer)"
  by (induction answer arbitrary: acc) (auto simp add: address_record_def)

text \<open>
  When every delete is answered, each name of the list has been sent one delete, in order,
  and the zone has lost every rrset at one of the names.
\<close>

lemma delete_record_names_ok:
  "fst (delete_record_names net names st) = Inr () \<Longrightarrow>
   sent (snd (delete_record_names net names st)) = sent st @ map (\<lambda>n. Update (Delete n)) names
   \<and> zone (snd (delete_record_names net names st)) = filter (\<lambda>rr. rr_name rr \<notin> set names) (zone st)"
proof (induction names arbitrary: st)
  case Nil
  show ?case by simp
next
  case (Cons n names)
  show ?case
  proof (cases "net (length (sent st))")
    case False
    with Cons.prems show ?thesis by (simp add: tcp_fail)
  next
    case True
    let ?st' = "st\<lparr>sent := sent st @ [Update (Delete n)], zone := filter (\<lambda>rr. rr_name rr \<noteq> n) (zone st)\<rparr>"
    have eq: "delete_record_names net (n # names) st = delete_record_names net names ?st'"
      using True by (simp add: tcp_ok)
    with Cons.prems have "fst (delete_record_names net names ?st') = Inr ()" by simp
    from Cons.IH[OF this] show ?thesis
      unfolding eq by (auto intro: filter_cong)
  qed
qed

lemma sweep_ok:
  assumes "fst (remove_all_a_records net st) = Inr ()"
  shows "sent (snd (remove_all_a_records net st)) =
           sent st @ AXFR # map (\<lambda>n. Update (Delete n)) (map rr_name (filter address_record (zone st)))"
    and "zone (snd (remove_all_a_records net st)) =
           filter (\<lambda>rr. rr_name rr \<notin> rr_name ` set (filter address_record (zone st))) (zone st)"
proof -
  have up: "net (length (sent st))"
    using assms by (cases "net (length (sent st))") (simp_all add: remove_all_a_records_def tcp_fail)
  let ?st' = "st\<lparr>sent := sent st @ [AXFR]\<rparr>"
  let ?names = "map rr_name (filter address_record (zone st))"
  have names: "collect_record_names (zone st) [] = ?names"
    by (simp add: collect_address_records)
  have eq: "remove_all_a_records net st = delete_record_names net ?names ?st'"
    using up by (simp add: remove_all_a_records_def tcp_ok names)
  with assms have "fst (delete_record_names net ?names ?st') = Inr ()" by simp
  from delete_record_names_ok[OF this]
  show "sent (snd (remove_all_a_records net st)) = sent st @ AXFR # map (\<lambda>n. Update (Delete n)) ?names"
    and "zone (snd (remove_all_a_records net st)) =
           filter (\<lambda>rr. rr_name rr \<notin> rr_name ` set (filter address_record (zone st))) (zone st)"
    by (simp_all add: eq)
qed

lemma sweep_clean_zone:
  assumes "filter address_record (zone st) = []"
  shows "mutations (sent (snd (remove_all_a_records net st))) = mutations (sent st)"
proof (cases "net (length (sent st))")
  case False
  then show ?thesis by (simp add: remove_all_a_records_def tcp_fail mutations_append)
next
  case True
  have "collect_record_names (zone st) [] = []"
    using assms by (simp add: collect_address_records)
  then show ?thesis using True by (simp add: remove_all_a_records_def tcp_ok mutations_append)
qed

lemma sweep_leaves_clean_zone:
  assumes "fst (remove_all_a_records net st) = Inr ()"
  shows "filter address_record (zone (snd (remove_all_a_records net st))) = []"
  by (auto simp add: sweep_ok(2)[OF assms] filter_empty_conv)

text \<open>
  C8. A sweep that follows a completed sweep, with nothing in between, issues no mutation;
  and a sweep of a zone without A and AAAA rrsets issues no mutation.
\<close>

theorem C8_sweep_idempotent:
  "(fst (remove_all_a_records net st) = Inr () \<longrightarrow>
      mutations (sent (snd (remove_all_a_records net (snd (remove_all_a_records net st))))) =
      mutations (sent (snd (remove_all_a_records net st))))
   \<and> (filter address_record (zone st) = [] \<longrightarrow>
      mutations (sent (snd (remove_all_a_records net st))) = mutations (sent st))"
  using sweep_clean_zone sweep_leaves_clean_zone by blast

text \<open>
  The sweep of \<open>zone0\<close> completes, leaves the SOA alone in the zone, and a second sweep
  adds no mutation to the two deletes of the first.
\<close>

theorem C8_sweep_idempotent_witness:
  "fst (remove_all_a_records net_up (initial zone0)) = Inr ()
   \<and> mutations (sent (snd (remove_all_a_records net_up (initial zone0)))) = [Delete ''cam'', Delete ''cam'']
   \<and> zone (snd (remove_all_a_records net_up (initial zone0))) = [\<lparr>rr_name = ''mdns.lan'', rdtype = 6\<rparr>]
   \<and> filter address_record (zone (snd (remove_all_a_records net_up (initial zone0)))) = []
   \<and> mutations (sent (snd (remove_all_a_records net_up (snd (remove_all_a_records net_up (initial zone0)))))) =
       [Delete ''cam'', Delete ''cam'']"
proof -
  have e: "remove_all_a_records net_up (initial zone0) =
     (Inr (), (initial zone0)\<lparr>sent := [AXFR, Update (Delete ''cam''), Update (Delete ''cam'')],
        zone := [\<lparr>rr_name = ''mdns.lan'', rdtype = 6\<rparr>]\<rparr>)"
    by (simp add: remove_all_a_records_def tcp_def initial_def zone0_def net_up_def
        RdataType_A_def RdataType_AAAA_def)
  have f: "fst (remove_all_a_records net_up (initial zone0)) = Inr ()" by (simp add: e)
  have c: "filter address_record (zone (snd (remove_all_a_records net_up (initial zone0)))) = []"
    by (simp add: e address_record_def RdataType_A_def RdataType_AAAA_def)
  have m: "mutations (sent (snd (remove_all_a_records net_up (initial zone0)))) = [Delete ''cam'', Delete ''cam'']"
    by (simp add: e)
  have z: "zone (snd (remove_all_a_records net_up (initial zone0))) = [\<lparr>rr_name = ''mdns.lan'', rdtype = 6\<rparr>]"
    by (simp add: e)
  from C8_sweep_idempotent[of net_up "initial zone0"]
    C8_sweep_idempotent[of net_up "snd (remove_all_a_records net_up (initial zone0))"] f c m z
  show ?thesis by simp
qed

text \<open>
  C9. The claim: the sweep issues exactly one delete per distinct owner name that holds an
  A or AAAA record, also when one name holds both an A and an AAAA rrset. It fails: for a
  zone with an A rrset and an AAAA rrset at \<open>stale\<close>, the sweep sends two deletes of
  \<open>stale\<close>.
\<close>

theorem C9_counterexample:
  "mutations (sent (snd (remove_all_a_records net_up
      (initial [\<lparr>rr_name = ''stale'', rdtype = RdataType_A\<rparr>, \<lparr>rr_name = ''stale'', rdtype = RdataType_AAAA\<rparr>])))) =
     [Delete ''stale'', Delete ''stale'']"
  by (simp add: remove_all_a_records_def tcp_def initial_def net_up_def)

text \<open>
  C9, as amended. A sweep that completes issues exactly one delete per A or AAAA rrset of
  the zone transfer result, at that rrset's owner name and in the order of the answer (so
  a name holding both an A and an AAAA rrset gets two deletes), and none for an rrset of
  another type.
\<close>

theorem C9_one_delete_per_address_rrset:
  "fst (remove_all_a_records net st) = Inr () \<Longrightarrow>
   mutations (sent (snd (remove_all_a_records net st))) =
     mutations (sent st) @ map (\<lambda>rrset. Delete (rr_name rrset)) (filter address_record (zone st))"
  using mutations_Update[of "map (\<lambda>rrset. Delete (rr_name rrset)) (filter address_record (zone st))"]
  by (simp add: sweep_ok(1) mutations_append comp_def)

text \<open>The sweep of \<open>zone0\<close>: two deletes of \<open>cam\<close>, none of the apex.\<close>

theorem C9_one_delete_per_address_rrset_witness:
  "fst (remove_all_a_records net_up (initial zone0)) = Inr ()
   \<and> mutations (sent (snd (remove_all_a_records net_up (initial zone0)))) = [Delete ''cam'', Delete ''cam'']"
proof -
  have f: "fst (remove_all_a_records net_up (initial zone0)) = Inr ()"
    by (simp add: remove_all_a_records_def tcp_def initial_def zone0_def net_up_def
        RdataType_A_def RdataType_AAAA_def)
  have z: "filter address_record (zone (initial zone0)) =
      [\<lparr>rr_name = ''cam'', rdtype = RdataType_A\<rparr>, \<lparr>rr_name = ''cam'', rdtype = RdataType_AAAA\<rparr>]"
    by (simp add: initial_def zone0_def address_record_def RdataType_A_def RdataType_AAAA_def)
  have s: "sent (initial zone0) = []" by (simp add: initial_def)
  from C9_one_delete_per_address_rrset[OF f] f show ?thesis by (simp add: z s)
qed

end
